theory Spec2Isabelle
  imports Main
begin

section \<open>Gear record model (types.ts)\<close>

text \<open>
  The closed enumerations of the source are datatypes. The constructor of
  \<^verbatim>\<open>HazardType\<close> that the source spells \<^verbatim>\<open>'None'\<close> is \<open>NoHazard\<close> here, the
  separators of the other hazard names are dropped.
\<close>

datatype Region = US | EU | AU | Global

datatype GearCategory =
  Tent | Stove | Pack | Headlamp | Harness | Rope | PLB | Boots | Helmet | Carabiner | Other

datatype RecallStatus = Unknown | Safe | Warning | Recalled

datatype HazardType =
  FireBurn | FallFailure | GasLeak | Electrical | WaterDrowning | ChildSafety
  | Laceration | Structural | NoHazard

text \<open>
  Interfaces are records. A field \<^verbatim>\<open>id\<close> is \<open>task_id\<close> or \<open>item_id\<close> (\<open>id\<close> is the
  identity function of HOL). An optional field \<^verbatim>\<open>f?: T\<close> has type \<open>T option\<close>, with
  \<open>None\<close> for \<^verbatim>\<open>undefined\<close>. The numbers of the source (years, scores from 0 to
  100) are integers here. Field names that several interfaces share are written
  with the record's name in front where they are not the ones of \<open>GearItem\<close>.
\<close>

text \<open>
  What \<^verbatim>\<open>ai.models.generateContent\<close> resolves with, as far as the client reads
  it: the text, and the grounding chunks at the end of the optional chain
  \<^verbatim>\<open>candidates?.[0]?.groundingMetadata?.groundingChunks\<close> (\<open>None\<close> when a link of
  the chain is undefined).
\<close>

record WebChunk =
  uri :: "string option"
  title :: "string option"

record GroundingChunk =
  web :: "WebChunk option"

record GenResponse =
  "text" :: "string option"
  groundingChunks :: "GroundingChunk list option"

record InspectionTask =
  task_id :: string
  task :: string
  isCompleted :: bool

record SourceRef =
  title :: string
  uri :: string

record RecallResult =
  status :: RecallStatus
  summary :: string
  hazardReason :: string
  hazardType :: HazardType
  affectedRegion :: string
  actionRequired :: "string list"
  sources :: "SourceRef list"
  lastChecked :: string

text \<open>
  The results of the two other per-item calls of the enrichment client.
  \<^verbatim>\<open>getInspectionDetails\<close> builds its result itself, so it has the three fields.
  \<^verbatim>\<open>analyzeGearCondition\<close> hands on whatever \<^verbatim>\<open>JSON.parse\<close> returned: the value can
  be \<^verbatim>\<open>null\<close> (modelled by \<open>None\<close> where such a value is passed, see
  \<open>analyzeGearCondition_try\<close>), and a value that is not \<^verbatim>\<open>null\<close> may lack either
  property, which then reads as \<^verbatim>\<open>undefined\<close>; so the two fields of
  \<open>ConditionResult\<close> are optional.
\<close>

record InspectionDetails =
  expiryYear :: int
  inspectionTasks :: "InspectionTask list"
  weakPoints :: "string list"

record ConditionResult =
  score :: "int option"
  label :: "string option"

text \<open>
  The object that \<^verbatim>\<open>getInspectionDetails\<close> reads out of the parsed answer; each key
  may be missing.
\<close>

record InspectionJson =
  expiryYear :: "int option"
  tasks :: "string list option"
  weakPoints :: "string list option"

record TripContext =
  type :: string
  environment :: "string list"

record LoadoutAnalysis =
  summary :: string
  weakestCategories :: "string list"
  redFlagItems :: "string list"
  suggestions :: "string list"

text \<open>
  \<^verbatim>\<open>GearItem\<close>. The last field, \<open>weakPoints\<close>, is not declared by the interface:
  it is the property of that name which the two enrichment handlers write with
  their object literal (\<^verbatim>\<open>weakPoints: inspectionResult.weakPoints\<close>). A JavaScript
  object carries it beside the declared \<open>knownWeakPoints\<close>, so the record has both.
\<close>

record GearItem =
  item_id :: string
  name :: string
  brand :: string
  model :: string
  category :: GearCategory
  purchaseDate :: string
  region :: Region
  "notes" :: "string option"
  serialNumber :: "string option"
  status :: RecallStatus
  recallInfo :: "RecallResult option"
  expiryYear :: "int option"
  inspectionTasks :: "InspectionTask list option"
  inspectionDue :: "bool option"
  conditionScore :: "int option"
  conditionLabel :: "string option"
  knownWeakPoints :: "string list option"
  inLoadout :: "bool option"
  weakPoints :: "string list option"

text \<open>The two seed records of \<^verbatim>\<open>INITIAL_GEAR\<close> (App.tsx).\<close>

definition gear1 :: GearItem where
  "gear1 = \<lparr>item_id = ''1'', name = ''Petzl Grigri 2'', brand = ''Petzl'',
     model = ''Grigri 2'', category = Other, purchaseDate = ''2011'', region = US,
     notes = Some ''Used heavily'', serialNumber = None, status = Unknown,
     recallInfo = None, expiryYear = None, inspectionTasks = None,
     inspectionDue = None, conditionScore = None, conditionLabel = None,
     knownWeakPoints = None, inLoadout = None, weakPoints = None\<rparr>"

definition gear2 :: GearItem where
  "gear2 = \<lparr>item_id = ''2'', name = ''MSR Reactor'', brand = ''MSR'',
     model = ''Reactor Stove'', category = Stove, purchaseDate = ''2017'', region = US,
     notes = None, serialNumber = None, status = Unknown,
     recallInfo = None, expiryYear = None, inspectionTasks = None,
     inspectionDue = None, conditionScore = None, conditionLabel = None,
     knownWeakPoints = None, inLoadout = None, weakPoints = None\<rparr>"

definition INITIAL_GEAR :: "GearItem list" where
  "INITIAL_GEAR = [gear1, gear2]"

section \<open>Inventory store (App.tsx)\<close>

text \<open>
  The store is the React state \<^verbatim>\<open>inventory\<close>, a \<^verbatim>\<open>GearItem[]\<close>. Each handler
  computes the next state from the current one and hands it to \<^verbatim>\<open>setInventory\<close>;
  the model takes the current state and returns the next. None of the three
  handlers has a branch that throws or that leaves the state as it is.
\<close>

definition addGear :: "GearItem list \<Rightarrow> GearItem \<Rightarrow> GearItem list" where
  "addGear inventory item = item # inventory"

definition updateGear :: "GearItem list \<Rightarrow> GearItem \<Rightarrow> GearItem list" where
  "updateGear inventory updatedItem =
     map (\<lambda>item. if item_id item = item_id updatedItem then updatedItem else item) inventory"

definition removeGear :: "GearItem list \<Rightarrow> string \<Rightarrow> GearItem list" where
  "removeGear inventory i = filter (\<lambda>item. item_id item \<noteq> i) inventory"

text \<open>
  The contract of \<open>add\<close> in the words of the specification, for comparison with
  \<open>addGear\<close>: the item is prepended, and the operation is rejected (\<open>None\<close>) when
  its id is the id of an entry of the store.
\<close>

definition add_spec :: "GearItem list \<Rightarrow> GearItem \<Rightarrow> GearItem list option" where
  "add_spec inventory item =
     (if item_id item \<in> set (map item_id inventory) then None else Some (item # inventory))"

text \<open>
  \<^verbatim>\<open>handleSubmit\<close> of AddGearForm.tsx, the one caller of \<^verbatim>\<open>onAdd\<close>: it builds the
  new item from the form's fields, with the result of \<^verbatim>\<open>crypto.randomUUID()\<close> as id
  (a parameter here) and status unknown, and adds it.
\<close>

definition newItem :: "string \<Rightarrow> string \<Rightarrow> string \<Rightarrow> GearCategory \<Rightarrow> string \<Rightarrow> Region \<Rightarrow> GearItem" where
  "newItem uuid b m c year r =
     \<lparr>item_id = uuid, name = b @ '' '' @ m, brand = b, model = m, category = c,
      purchaseDate = year, region = r, notes = None, serialNumber = None,
      status = Unknown, recallInfo = None, expiryYear = None, inspectionTasks = None,
      inspectionDue = None, conditionScore = None, conditionLabel = None,
      knownWeakPoints = None, inLoadout = None, weakPoints = None\<rparr>"

definition handleSubmit ::
  "GearItem list \<Rightarrow> string \<Rightarrow> string \<Rightarrow> string \<Rightarrow> GearCategory \<Rightarrow> string \<Rightarrow> Region
   \<Rightarrow> GearItem list" where
  "handleSubmit inventory uuid b m c year r = addGear inventory (newItem uuid b m c year r)"

section \<open>Derived views (App.tsx, Sidebar.tsx)\<close>

text \<open>
  \<^verbatim>\<open>highDangerItems\<close> of App.tsx. The test \<^verbatim>\<open>conditionScore !== undefined\<close> is the
  \<open>Some\<close> case.
\<close>

definition highDangerItems :: "GearItem list \<Rightarrow> GearItem list" where
  "highDangerItems inventory =
     filter (\<lambda>item.
        status item = Recalled
        \<or> status item = Warning
        \<or> (case conditionScore item of None \<Rightarrow> False | Some s \<Rightarrow> s < 50))
       inventory"

text \<open>
  \<^verbatim>\<open>reminders\<close> of Sidebar.tsx, with the value of \<^verbatim>\<open>new Date().getFullYear()\<close> as a
  parameter. \<^verbatim>\<open>isExpired\<close> is \<^verbatim>\<open>item.expiryYear && item.expiryYear <= year\<close>: the
  left operand is tested for truthiness, and the number 0 is falsy as \<^verbatim>\<open>undefined\<close>
  is. \<^verbatim>\<open>needsInspection\<close> tests \<^verbatim>\<open>conditionScore !== undefined\<close>, so a score of 0
  counts there.
\<close>

definition isExpired :: "int \<Rightarrow> GearItem \<Rightarrow> bool" where
  "isExpired currentYear item =
     (case expiryYear item of
        None \<Rightarrow> False
      | Some y \<Rightarrow> y \<noteq> 0 \<and> y \<le> currentYear)"

definition needsInspection :: "GearItem \<Rightarrow> bool" where
  "needsInspection item =
     (case conditionScore item of None \<Rightarrow> False | Some s \<Rightarrow> s < 60)"

definition reminders :: "int \<Rightarrow> GearItem list \<Rightarrow> GearItem list" where
  "reminders currentYear inventory =
     filter (\<lambda>item. isExpired currentYear item \<or> needsInspection item) inventory"

text \<open>
  The membership test of \<open>reminders\<close> in the words of the specification, for
  comparison with the one of the code: the expiry year is defined and at most the
  current year, or the condition score is defined and below 60.
\<close>

definition reminder_spec :: "int \<Rightarrow> GearItem \<Rightarrow> bool" where
  "reminder_spec currentYear item =
     ((case expiryYear item of None \<Rightarrow> False | Some y \<Rightarrow> y \<le> currentYear)
      \<or> (case conditionScore item of None \<Rightarrow> False | Some s \<Rightarrow> s < 60))"

section \<open>Enrichment orchestration (App.tsx, GearCard.tsx)\<close>

text \<open>
  A promise that has settled is a sum: \<open>Inl\<close> the rejection, \<open>Inr\<close> the value it
  resolved with. The errors are the exceptions that the client's code can meet:
  a rejected network call, a \<^verbatim>\<open>JSON.parse\<close> failure, a property read on
  \<^verbatim>\<open>undefined\<close>.
\<close>

datatype error = NetworkError | SyntaxError | TypeError

type_synonym 'a settled = "error + 'a"

text \<open>
  \<^verbatim>\<open>Promise.all\<close> of three promises: it resolves with the three values when all
  resolve and rejects when one rejects. (Which rejection it reports when several
  reject depends on timing; both callers discard the error.)
\<close>

definition promise_all3 ::
  "'a settled \<Rightarrow> 'b settled \<Rightarrow> 'c settled \<Rightarrow> ('a \<times> 'b \<times> 'c) settled" where
  "promise_all3 p q r =
     (case p of Inl e \<Rightarrow> Inl e
      | Inr a \<Rightarrow> (case q of Inl e \<Rightarrow> Inl e
          | Inr b \<Rightarrow> (case r of Inl e \<Rightarrow> Inl e | Inr c \<Rightarrow> Inr (a, b, c))))"

text \<open>
  The object literal that both enrichment handlers build from the item and
  the three results: the spread of the item, then eight properties. The fifth
  is \<^verbatim>\<open>weakPoints\<close>, not \<^verbatim>\<open>knownWeakPoints\<close>.
\<close>

definition mergeEnrichment ::
  "GearItem \<Rightarrow> RecallResult \<Rightarrow> InspectionDetails \<Rightarrow> ConditionResult \<Rightarrow> GearItem" where
  "mergeEnrichment item recallResult inspectionResult conditionResult =
     item\<lparr>status := RecallResult.status recallResult,
          recallInfo := Some recallResult,
          expiryYear := Some (InspectionDetails.expiryYear inspectionResult),
          inspectionTasks := Some (InspectionDetails.inspectionTasks inspectionResult),
          weakPoints := Some (InspectionDetails.weakPoints inspectionResult),
          conditionScore := score conditionResult,
          conditionLabel := label conditionResult,
          inspectionDue := Some True\<rparr>"

text \<open>
  \<open>enrichOne\<close> is the callback that \<^verbatim>\<open>handleGlobalCheck\<close> maps over the selected
  items. \<open>enrichOne_try\<close> is its \<^verbatim>\<open>try\<close> block: the three client calls are awaited
  together, and the merged object is built and returned. The block throws when
  \<^verbatim>\<open>Promise.all\<close> rejects, and also when the condition call resolved with
  \<^verbatim>\<open>null\<close>: reading \<^verbatim>\<open>conditionResult.score\<close> is then a TypeError, raised while
  the object literal is evaluated, so nothing is returned. (The two other results
  are objects whenever their calls resolve.) The \<^verbatim>\<open>catch\<close> returns the item. The
  last three arguments are what the three calls settled with, \<open>Inr None\<close> being a
  condition call that resolved with \<^verbatim>\<open>null\<close>.
\<close>

definition enrichOne_try ::
  "GearItem \<Rightarrow> RecallResult settled \<Rightarrow> InspectionDetails settled
   \<Rightarrow> ConditionResult option settled \<Rightarrow> GearItem settled" where
  "enrichOne_try item p q r =
     (case promise_all3 p q r of
        Inl e \<Rightarrow> Inl e
      | Inr (recallResult, inspectionResult, None) \<Rightarrow> Inl TypeError
      | Inr (recallResult, inspectionResult, Some conditionResult) \<Rightarrow>
          Inr (mergeEnrichment item recallResult inspectionResult conditionResult))"

definition enrichOne ::
  "GearItem \<Rightarrow> RecallResult settled \<Rightarrow> InspectionDetails settled
   \<Rightarrow> ConditionResult option settled \<Rightarrow> GearItem" where
  "enrichOne item p q r =
     (case enrichOne_try item p q r of
        Inr merged \<Rightarrow> merged
      | Inl e \<Rightarrow> item)"

text \<open>
  \<^verbatim>\<open>handleCheckSafety\<close> of GearCard.tsx has the same \<^verbatim>\<open>try\<close> block for one card,
  with the same object literal as the argument of \<^verbatim>\<open>onUpdate\<close>, which is
  \<open>updateGear\<close>: when the literal throws, \<^verbatim>\<open>onUpdate\<close> is not called. Its \<^verbatim>\<open>catch\<close>
  logs and updates nothing. The model returns the store after the handler.
\<close>

definition handleCheckSafety ::
  "GearItem list \<Rightarrow> GearItem \<Rightarrow> RecallResult settled \<Rightarrow> InspectionDetails settled
   \<Rightarrow> ConditionResult option settled \<Rightarrow> GearItem list" where
  "handleCheckSafety inventory item p q r =
     (case enrichOne_try item p q r of
        Inr merged \<Rightarrow> updateGear inventory merged
      | Inl e \<Rightarrow> inventory)"

text \<open>
  The three per-item operations of an enrichment client, each giving for an
  item what its call settles with.
\<close>

record Client =
  recallCheck :: "GearItem \<Rightarrow> RecallResult settled"
  inspectionCheck :: "GearItem \<Rightarrow> InspectionDetails settled"
  conditionCheck :: "GearItem \<Rightarrow> ConditionResult option settled"

text \<open>
  \<^verbatim>\<open>handleGlobalCheck\<close>: the items of the rendered \<^verbatim>\<open>inventory\<close> whose status is
  unknown are enriched, and when all have settled the state is replaced through
  \<^verbatim>\<open>setInventory(prev => prev.map(...))\<close>: each entry of \<open>prev\<close> becomes the first
  enriched item with its id, if there is one. \<open>prev\<close> is the state at that moment;
  it is \<open>inventory\<close> when no other update came in between.
\<close>

definition selectUnknown :: "GearItem list \<Rightarrow> GearItem list" where
  "selectUnknown inventory = filter (\<lambda>item. status item = Unknown) inventory"

definition enrichWith :: "Client \<Rightarrow> GearItem \<Rightarrow> GearItem" where
  "enrichWith client item =
     enrichOne item (recallCheck client item) (inspectionCheck client item)
       (conditionCheck client item)"

definition mergeUpdated :: "GearItem list \<Rightarrow> GearItem list \<Rightarrow> GearItem list" where
  "mergeUpdated updatedItems prev =
     map (\<lambda>item. case find (\<lambda>u. item_id u = item_id item) updatedItems of
                    Some updated \<Rightarrow> updated
                  | None \<Rightarrow> item) prev"

definition handleGlobalCheck :: "Client \<Rightarrow> GearItem list \<Rightarrow> GearItem list \<Rightarrow> GearItem list" where
  "handleGlobalCheck client inventory prev =
     mergeUpdated (map (enrichWith client) (selectUnknown inventory)) prev"

section \<open>Enrichment client (services/geminiService.ts)\<close>

text \<open>
  The client's functions are \<^verbatim>\<open>async\<close> with the whole body in \<^verbatim>\<open>try\<close>/\<^verbatim>\<open>catch\<close>.
  The outside world is a parameter of the model: what each \<^verbatim>\<open>generateContent\<close>
  call settles with, what \<^verbatim>\<open>JSON.parse\<close> makes of a string, and the clock. The
  prompts are not modelled, so an item or trip context that only feeds a prompt
  is an argument the definitions do not read. For each function \<open>f\<close> the
  definition \<open>f_try\<close> is the \<^verbatim>\<open>try\<close> block, with \<open>Inl\<close> for what it throws, and \<open>f\<close>
  adds the \<^verbatim>\<open>catch\<close>.

  \<^verbatim>\<open>JSON.parse\<close> throws, or returns a value that the code does not check. Where
  the code reads properties of the value or hands it on (\<^verbatim>\<open>getInspectionDetails\<close>,
  \<^verbatim>\<open>analyzeGearCondition\<close>) the parser of the model returns \<open>None\<close> for \<^verbatim>\<open>null\<close>, on
  which a property read throws, and otherwise the properties that are read, each
  of them optional. \<^verbatim>\<open>checkGearSafety\<close> spreads the value into its result, whose
  \<^verbatim>\<open>status\<close> becomes the status of the item, a required field of \<open>GearItem\<close>; its
  parser ranges over the answers that have the fields of \<open>RecallResult\<close>, and an
  answer without them is outside the model.
\<close>

text \<open>
  \<^verbatim>\<open>cleanJson\<close>: every occurrence of the fence with \<^verbatim>\<open>json\<close> is deleted, then every
  remaining fence, scanning from the left, and the result is trimmed. A string
  of the model is the UTF-8 encoding of the JavaScript string. \<open>trim\<close> strips, at
  both ends, the code points that \<^verbatim>\<open>String.prototype.trim\<close> strips, the white space
  and line terminators of ECMAScript: U+0009 to U+000D, U+0020, U+00A0, U+1680,
  U+2000 to U+200A, U+2028, U+2029, U+202F, U+205F, U+3000 and U+FEFF;
  \<open>spaceSeqs\<close> lists their encodings. (No byte of one encoding begins another, so
  at the end of the string the reversed encodings are matched on the reversed
  string.)
\<close>

function deleteAll :: "string \<Rightarrow> string \<Rightarrow> string" where
  "deleteAll pat s =
     (if pat = [] \<or> s = [] then s
      else if take (length pat) s = pat then deleteAll pat (drop (length pat) s)
      else hd s # deleteAll pat (tl s))"
  by pat_completeness auto
termination
  by (relation "measure (\<lambda>(pat, s). length s)") auto

definition spaceSeqs :: "string list" where
  "spaceSeqs =
     [[CHR 0x09], [CHR 0x0A], [CHR 0x0B], [CHR 0x0C], [CHR 0x0D], [CHR 0x20],
      [CHR 0xC2, CHR 0xA0], [CHR 0xE1, CHR 0x9A, CHR 0x80],
      [CHR 0xE2, CHR 0x80, CHR 0x80], [CHR 0xE2, CHR 0x80, CHR 0x81],
      [CHR 0xE2, CHR 0x80, CHR 0x82], [CHR 0xE2, CHR 0x80, CHR 0x83],
      [CHR 0xE2, CHR 0x80, CHR 0x84], [CHR 0xE2, CHR 0x80, CHR 0x85],
      [CHR 0xE2, CHR 0x80, CHR 0x86], [CHR 0xE2, CHR 0x80, CHR 0x87],
      [CHR 0xE2, CHR 0x80, CHR 0x88], [CHR 0xE2, CHR 0x80, CHR 0x89],
      [CHR 0xE2, CHR 0x80, CHR 0x8A], [CHR 0xE2, CHR 0x80, CHR 0xA8],
      [CHR 0xE2, CHR 0x80, CHR 0xA9], [CHR 0xE2, CHR 0x80, CHR 0xAF],
      [CHR 0xE2, CHR 0x81, CHR 0x9F], [CHR 0xE3, CHR 0x80, CHR 0x80],
      [CHR 0xEF, CHR 0xBB, CHR 0xBF]]"

function dropSpaces :: "string list \<Rightarrow> string \<Rightarrow> string" where
  "dropSpaces seqs s =
     (case find (\<lambda>p. p \<noteq> [] \<and> take (length p) s = p) seqs of
        None \<Rightarrow> s
      | Some p \<Rightarrow> dropSpaces seqs (drop (length p) s))"
  by pat_completeness auto
termination
proof (relation "measure (\<lambda>(seqs, s). length s)")
  show "wf (measure (\<lambda>(seqs, s). length s))" by simp
next
  fix seqs :: "string list" and s p :: string
  assume "find (\<lambda>p. p \<noteq> [] \<and> take (length p) s = p) seqs = Some p"
  then have p: "p \<noteq> []" "take (length p) s = p"
    by (auto simp: find_Some_iff)
  from p(2) have "length p \<le> length s"
    by (metis length_take min.cobounded1)
  with p(1) show "((seqs, drop (length p) s), (seqs, s)) \<in> measure (\<lambda>(seqs, s). length s)"
    by (cases p) auto
qed

definition trim :: "string \<Rightarrow> string" where
  "trim s = rev (dropSpaces (map rev spaceSeqs) (rev (dropSpaces spaceSeqs s)))"

definition cleanJson :: "string \<Rightarrow> string" where
  "cleanJson t = trim (deleteAll ''```'' (deleteAll ''```json'' t))"

text \<open>\<^verbatim>\<open>t || d\<close> for an optional string: the empty string is falsy too.\<close>

definition strOr :: "string option \<Rightarrow> string \<Rightarrow> string" where
  "strOr t d = (case t of None \<Rightarrow> d | Some s \<Rightarrow> if s = [] then d else s)"

definition truthyStr :: "string option \<Rightarrow> bool" where
  "truthyStr t = (case t of None \<Rightarrow> False | Some s \<Rightarrow> s \<noteq> [])"

text \<open>Decimal digits of a number, for the template string of a task id.\<close>

fun string_of_nat :: "nat \<Rightarrow> string" where
  "string_of_nat n =
     (if n < 10 then [''0123456789'' ! n]
      else string_of_nat (n div 10) @ [''0123456789'' ! (n mod 10)])"

subsection \<open>checkGearSafety\<close>

definition extractSources :: "GenResponse \<Rightarrow> SourceRef list" where
  "extractSources searchResponse =
     take 3
       (map (\<lambda>chunk. \<lparr>title = the (WebChunk.title (the (web chunk))),
                       uri = the (WebChunk.uri (the (web chunk)))\<rparr>)
          (filter (\<lambda>chunk. case web chunk of None \<Rightarrow> False
                            | Some w \<Rightarrow> truthyStr (WebChunk.uri w) \<and> truthyStr (WebChunk.title w))
             (case groundingChunks searchResponse of None \<Rightarrow> [] | Some cs \<Rightarrow> cs)))"

definition checkGearSafety_try ::
  "string \<Rightarrow> (string \<Rightarrow> RecallResult settled) \<Rightarrow> GenResponse settled \<Rightarrow> GenResponse settled
   \<Rightarrow> GearItem \<Rightarrow> RecallResult settled" where
  "checkGearSafety_try isoNow parse search analysis item =
     (case search of Inl e \<Rightarrow> Inl e
      | Inr searchResponse \<Rightarrow>
         (case analysis of Inl e \<Rightarrow> Inl e
          | Inr analysisResponse \<Rightarrow>
             (case parse (cleanJson (strOr (text analysisResponse) ''{}'')) of
                Inl e \<Rightarrow> Inl e
              | Inr result \<Rightarrow>
                  Inr (result\<lparr>sources := extractSources searchResponse,
                              lastChecked := isoNow\<rparr>))))"

definition recallFallback :: "string \<Rightarrow> RecallResult" where
  "recallFallback isoNow =
     \<lparr>RecallResult.status = Unknown,
      RecallResult.summary = ''Could not verify safety status due to network error.'',
      hazardReason = ''Unknown'',
      hazardType = NoHazard,
      affectedRegion = ''Unknown'',
      actionRequired = [''Check manufacturer website manually''],
      sources = [],
      lastChecked = isoNow\<rparr>"

definition checkGearSafety ::
  "string \<Rightarrow> (string \<Rightarrow> RecallResult settled) \<Rightarrow> GenResponse settled \<Rightarrow> GenResponse settled
   \<Rightarrow> GearItem \<Rightarrow> RecallResult settled" where
  "checkGearSafety isoNow parse search analysis item =
     (case checkGearSafety_try isoNow parse search analysis item of
        Inr r \<Rightarrow> Inr r
      | Inl e \<Rightarrow> Inr (recallFallback isoNow))"

subsection \<open>getInspectionDetails\<close>

text \<open>
  \<open>fullYear\<close> is \<^verbatim>\<open>new Date().getFullYear()\<close> and \<open>msNow i\<close> is \<^verbatim>\<open>Date.now()\<close> when the
  id of task \<open>i\<close> is built. \<^verbatim>\<open>data.expiryYear || (year + 5)\<close> takes the default
  for a missing year and for the year 0. When the parsed value is \<^verbatim>\<open>null\<close>, reading
  \<^verbatim>\<open>data.expiryYear\<close> throws a TypeError inside the \<^verbatim>\<open>try\<close> block.
\<close>

definition mkTasks :: "(nat \<Rightarrow> nat) \<Rightarrow> string list \<Rightarrow> InspectionTask list" where
  "mkTasks msNow ts =
     map (\<lambda>(t, i). \<lparr>task_id = ''task-'' @ string_of_nat (msNow i) @ ''-'' @ string_of_nat i,
                     task = t, isCompleted = False\<rparr>)
       (zip ts [0 ..< length ts])"

definition getInspectionDetails_try ::
  "int \<Rightarrow> (nat \<Rightarrow> nat) \<Rightarrow> (string \<Rightarrow> InspectionJson option settled)
   \<Rightarrow> GenResponse settled \<Rightarrow> GearItem \<Rightarrow> InspectionDetails settled" where
  "getInspectionDetails_try fullYear msNow parse response item =
     (case response of Inl e \<Rightarrow> Inl e
      | Inr resp \<Rightarrow>
         (case parse (cleanJson (strOr (text resp) ''{}'')) of
            Inl e \<Rightarrow> Inl e
          | Inr None \<Rightarrow> Inl TypeError
          | Inr (Some data) \<Rightarrow>
              Inr \<lparr>InspectionDetails.expiryYear =
                     (case InspectionJson.expiryYear data of
                        None \<Rightarrow> fullYear + 5
                      | Some y \<Rightarrow> if y = 0 then fullYear + 5 else y),
                   InspectionDetails.inspectionTasks =
                     mkTasks msNow (case tasks data of None \<Rightarrow> [] | Some ts \<Rightarrow> ts),
                   InspectionDetails.weakPoints =
                     (case InspectionJson.weakPoints data of None \<Rightarrow> [] | Some ws \<Rightarrow> ws)\<rparr>))"

definition inspectionFallback :: "int \<Rightarrow> InspectionDetails" where
  "inspectionFallback fullYear =
     \<lparr>InspectionDetails.expiryYear = fullYear + 5,
      InspectionDetails.inspectionTasks =
        [\<lparr>task_id = ''1'', task = ''Visually inspect for damage'', isCompleted = False\<rparr>],
      InspectionDetails.weakPoints = [''Check general condition'']\<rparr>"

definition getInspectionDetails ::
  "int \<Rightarrow> (nat \<Rightarrow> nat) \<Rightarrow> (string \<Rightarrow> InspectionJson option settled)
   \<Rightarrow> GenResponse settled \<Rightarrow> GearItem \<Rightarrow> InspectionDetails settled" where
  "getInspectionDetails fullYear msNow parse response item =
     (case getInspectionDetails_try fullYear msNow parse response item of
        Inr r \<Rightarrow> Inr r
      | Inl e \<Rightarrow> Inr (inspectionFallback fullYear))"

subsection \<open>analyzeGearCondition\<close>

text \<open>
  The \<^verbatim>\<open>try\<close> block returns the parsed value as it is, so the call can resolve
  with \<^verbatim>\<open>null\<close> (\<open>Inr None\<close>) or with a value that lacks a score or a label.
\<close>

definition analyzeGearCondition_try ::
  "(string \<Rightarrow> ConditionResult option settled) \<Rightarrow> GenResponse settled \<Rightarrow> GearItem
   \<Rightarrow> ConditionResult option settled" where
  "analyzeGearCondition_try parse response item =
     (case response of Inl e \<Rightarrow> Inl e
      | Inr resp \<Rightarrow>
          parse (cleanJson (strOr (text resp) ''{\"score\": 80, \"label\": \"Unknown\"}'')))"

definition conditionFallback :: ConditionResult where
  "conditionFallback = \<lparr>score = Some 50, label = Some ''Needs check''\<rparr>"

definition analyzeGearCondition ::
  "(string \<Rightarrow> ConditionResult option settled) \<Rightarrow> GenResponse settled \<Rightarrow> GearItem
   \<Rightarrow> ConditionResult option settled" where
  "analyzeGearCondition parse response item =
     (case analyzeGearCondition_try parse response item of
        Inr r \<Rightarrow> Inr r
      | Inl e \<Rightarrow> Inr (Some conditionFallback))"

subsection \<open>assessImmediateSafety and analyzeTripLoadout\<close>

text \<open>
  \<^verbatim>\<open>response.text.trim()\<close> throws a TypeError when the response has no text;
  the \<^verbatim>\<open>catch\<close> turns that into the fallback as well.
\<close>

definition assessImmediateSafety_try ::
  "GenResponse settled \<Rightarrow> GearItem \<Rightarrow> TripContext \<Rightarrow> string settled" where
  "assessImmediateSafety_try response item context =
     (case response of Inl e \<Rightarrow> Inl e
      | Inr resp \<Rightarrow> (case text resp of None \<Rightarrow> Inl TypeError | Some t \<Rightarrow> Inr (trim t)))"

definition assessImmediateSafety ::
  "GenResponse settled \<Rightarrow> GearItem \<Rightarrow> TripContext \<Rightarrow> string settled" where
  "assessImmediateSafety response item context =
     (case assessImmediateSafety_try response item context of
        Inr v \<Rightarrow> Inr v
      | Inl e \<Rightarrow> Inr ''Could not assess. Please inspect manually.'')"

definition analyzeTripLoadout_try ::
  "(string \<Rightarrow> LoadoutAnalysis settled) \<Rightarrow> GenResponse settled \<Rightarrow> GearItem list
   \<Rightarrow> TripContext \<Rightarrow> LoadoutAnalysis settled" where
  "analyzeTripLoadout_try parse response items context =
     (case response of Inl e \<Rightarrow> Inl e
      | Inr resp \<Rightarrow> parse (cleanJson (strOr (text resp) ''{}'')))"

definition loadoutFallback :: LoadoutAnalysis where
  "loadoutFallback =
     \<lparr>summary = ''Could not analyze loadout.'',
      weakestCategories = [],
      redFlagItems = [],
      suggestions = [''Check all gear manually before departure.'']\<rparr>"

definition analyzeTripLoadout ::
  "(string \<Rightarrow> LoadoutAnalysis settled) \<Rightarrow> GenResponse settled \<Rightarrow> GearItem list
   \<Rightarrow> TripContext \<Rightarrow> LoadoutAnalysis settled" where
  "analyzeTripLoadout parse response items context =
     (case analyzeTripLoadout_try parse response items context of
        Inr r \<Rightarrow> Inr r
      | Inl e \<Rightarrow> Inr loadoutFallback)"

section \<open>Sample values\<close>

text \<open>The initial trip context of App.tsx.\<close>

definition defaultTripContext :: TripContext where
  "defaultTripContext = \<lparr>type = ''Day Hike'', environment = [''Fair'']\<rparr>"

text \<open>
  The client as it behaves while the network is down: every \<^verbatim>\<open>generateContent\<close>
  call is rejected (and the parser, which is then never reached, rejects
  everything), at a fixed time of the year 2026.
\<close>

definition offlineClient :: Client where
  "offlineClient =
     \<lparr>recallCheck =
        checkGearSafety ''2026-01-01T00:00:00.000Z'' (\<lambda>s. Inl SyntaxError)
          (Inl NetworkError) (Inl NetworkError),
      inspectionCheck =
        getInspectionDetails 2026 (\<lambda>i. 0) (\<lambda>s. Inl SyntaxError) (Inl NetworkError),
      conditionCheck = analyzeGearCondition (\<lambda>s. Inl SyntaxError) (Inl NetworkError)\<rparr>"

section \<open>Store operations: theorems\<close>

lemma updateGear_length: "length (updateGear inventory u) = length inventory"
  by (simp add: updateGear_def)

lemma updateGear_nth:
  "i < length inventory \<Longrightarrow>
   updateGear inventory u ! i =
     (if item_id (inventory ! i) = item_id u then u else inventory ! i)"
  by (simp add: updateGear_def)

lemma updateGear_absent:
  "item_id u \<notin> set (map item_id inventory) \<Longrightarrow> updateGear inventory u = inventory"
  unfolding updateGear_def by (induction inventory) auto

lemma removeGear_absent:
  "i \<notin> set (map item_id inventory) \<Longrightarrow> removeGear inventory i = inventory"
  unfolding removeGear_def by (induction inventory) auto

lemma handleSubmit_prepends:
  "handleSubmit inventory uuid b m c year r = newItem uuid b m c year r # inventory"
  "item_id (newItem uuid b m c year r) = uuid"
  "status (newItem uuid b m c year r) = Unknown"
  by (simp_all add: handleSubmit_def addGear_def newItem_def)

lemma gear1_gear2_ids: "item_id gear1 = ''1''" "item_id gear2 = ''2''"
  by (simp_all add: gear1_def gear2_def)

text \<open>
  C8. An update whose id is not in the store leaves the store as it is (and
  there is no failure to model: \<open>updateGear\<close> is total). In general the result has
  the length of the store, the entries whose id is the id of the updated item are
  the updated item, and every other entry is at its position, unchanged.
\<close>

theorem updateGear_replaces_by_id:
  "(item_id u \<notin> set (map item_id inventory) \<longrightarrow> updateGear inventory u = inventory)
   \<and> length (updateGear inventory u) = length inventory
   \<and> (\<forall>i < length inventory.
        updateGear inventory u ! i =
          (if item_id (inventory ! i) = item_id u then u else inventory ! i))"
  using updateGear_absent updateGear_length updateGear_nth by blast

theorem updateGear_replaces_by_id_witness:
  "updateGear [gear1] gear2 = [gear1]
   \<and> updateGear [gear1, gear2] (gear2\<lparr>status := Safe\<rparr>) = [gear1, gear2\<lparr>status := Safe\<rparr>]"
proof -
  have "updateGear [gear1] gear2 = [gear1]"
    using updateGear_replaces_by_id [of gear2 "[gear1]"] by (simp add: gear1_gear2_ids)
  moreover have "updateGear [gear1, gear2] (gear2\<lparr>status := Safe\<rparr>)
      = [gear1, gear2\<lparr>status := Safe\<rparr>]"
    by (simp add: updateGear_def gear1_gear2_ids)
  ultimately show ?thesis by simp
qed

text \<open>
  C4, as stated. On the code a colliding add is not rejected: the store
  \<open>[gear1]\<close> holds an entry with id \<open>''1''\<close>, the contract rejects a new item with
  that id, and \<open>addGear\<close> prepends it, leaving two entries with one id.
\<close>

theorem addGear_collision_counterexample:
  "add_spec [gear1] (gear2\<lparr>item_id := ''1''\<rparr>) = None
   \<and> addGear [gear1] (gear2\<lparr>item_id := ''1''\<rparr>) = [gear2\<lparr>item_id := ''1''\<rparr>, gear1]
   \<and> map item_id (addGear [gear1] (gear2\<lparr>item_id := ''1''\<rparr>)) = [''1'', ''1'']"
  by (simp add: add_spec_def addGear_def gear1_gear2_ids)

text \<open>
  C4, amended. For every store and every item, \<open>addGear\<close> puts the item at the
  front and leaves the existing entries behind it, in their order; it is never
  rejected. Where the id is fresh this is what the contract asks for; where the
  id collides the item is prepended all the same.
\<close>

theorem addGear_prepends:
  "hd (addGear inventory item) = item
   \<and> tl (addGear inventory item) = inventory
   \<and> length (addGear inventory item) = Suc (length inventory)
   \<and> (item_id item \<notin> set (map item_id inventory) \<longrightarrow>
        add_spec inventory item = Some (addGear inventory item))
   \<and> (item_id item \<in> set (map item_id inventory) \<longrightarrow>
        addGear inventory item = item # inventory)"
  by (simp add: addGear_def add_spec_def)

theorem addGear_prepends_witness:
  "addGear [gear1] gear2 = [gear2, gear1]
   \<and> add_spec [gear1] gear2 = Some [gear2, gear1]
   \<and> addGear [gear1, gear2] gear2 = [gear2, gear1, gear2]"
proof -
  have fresh: "item_id gear2 \<notin> set (map item_id [gear1])"
    by (simp add: gear1_gear2_ids)
  have coll: "item_id gear2 \<in> set (map item_id [gear1, gear2])"
    by simp
  from addGear_prepends [of "[gear1]" gear2] fresh
  have a: "add_spec [gear1] gear2 = Some (addGear [gear1] gear2)" by blast
  from addGear_prepends [of "[gear1, gear2]" gear2] coll
  have b: "addGear [gear1, gear2] gear2 = [gear2, gear1, gear2]" by blast
  have c: "addGear [gear1] gear2 = [gear2, gear1]" by (simp add: addGear_def)
  from a b c show ?thesis by simp
qed

text \<open>
  C9, as stated. Adding an item whose id is already in the store and then
  removing that id does not give the store back: \<open>removeGear\<close> filters by id, so
  the entry that was there before goes too.
\<close>

theorem add_remove_collision_counterexample:
  "removeGear (addGear [gear1] (gear2\<lparr>item_id := ''1''\<rparr>)) (item_id (gear2\<lparr>item_id := ''1''\<rparr>)) = []
   \<and> removeGear (addGear [gear1] (gear2\<lparr>item_id := ''1''\<rparr>)) (item_id (gear2\<lparr>item_id := ''1''\<rparr>)) \<noteq> [gear1]"
  by (simp add: removeGear_def addGear_def gear1_gear2_ids)

text \<open>
  C9, amended. For every store and every item whose id is not the id of an
  entry of the store, adding the item and then removing its id gives the store
  back, content and order.
\<close>

theorem add_then_remove:
  "item_id item \<notin> set (map item_id inventory) \<Longrightarrow>
   removeGear (addGear inventory item) (item_id item) = inventory"
  using removeGear_absent [of "item_id item" inventory]
  by (simp add: addGear_def removeGear_def)

theorem add_then_remove_witness:
  "removeGear (addGear INITIAL_GEAR (gear2\<lparr>item_id := ''3''\<rparr>)) ''3'' = INITIAL_GEAR"
  using add_then_remove [of "gear2\<lparr>item_id := ''3''\<rparr>" INITIAL_GEAR]
  by (simp add: INITIAL_GEAR_def gear1_gear2_ids)

section \<open>Derived views: theorems\<close>

lemma mem_highDangerItems:
  "item \<in> set (highDangerItems inventory) \<longleftrightarrow>
     item \<in> set inventory
     \<and> (status item = Recalled \<or> status item = Warning
        \<or> (\<exists>s. conditionScore item = Some s \<and> s < 50))"
  by (auto simp: highDangerItems_def split: option.splits)

lemma highDangerItems_filter:
  "highDangerItems inventory =
     filter (\<lambda>item. status item \<in> {Recalled, Warning}
                    \<or> (\<exists>s. conditionScore item = Some s \<and> s < 50)) inventory"
  unfolding highDangerItems_def
  by (rule filter_cong) (auto split: option.splits)

lemma reminders_filter:
  "reminders currentYear inventory =
     filter (\<lambda>item. (\<exists>y. expiryYear item = Some y \<and> y \<noteq> 0 \<and> y \<le> currentYear)
                    \<or> (\<exists>s. conditionScore item = Some s \<and> s < 60)) inventory"
  unfolding reminders_def isExpired_def needsInspection_def
  by (rule filter_cong) (auto split: option.splits)

lemma mem_reminders:
  "item \<in> set (reminders currentYear inventory) \<longleftrightarrow>
     item \<in> set inventory
     \<and> ((\<exists>y. expiryYear item = Some y \<and> y \<noteq> 0 \<and> y \<le> currentYear)
        \<or> (\<exists>s. conditionScore item = Some s \<and> s < 60))"
  by (auto simp: reminders_def isExpired_def needsInspection_def
           split: option.splits)

text \<open>
  C5. The high-danger view holds exactly the entries of the store that are
  recalled or under a warning, together with those whose condition score is
  defined and below 50: the union of the two selections, in the order of the
  store. An entry that is safe with score 40 is in it, and so is one that is
  recalled with score 90.
\<close>

theorem highDangerItems_union:
  "set (highDangerItems inventory) =
     {item \<in> set inventory. status item = Recalled \<or> status item = Warning}
     \<union> {item \<in> set inventory. \<exists>s. conditionScore item = Some s \<and> s < 50}
   \<and> highDangerItems inventory =
       filter (\<lambda>item. status item \<in> {Recalled, Warning}
                      \<or> (\<exists>s. conditionScore item = Some s \<and> s < 50)) inventory
   \<and> (\<forall>item \<in> set inventory.
         status item = Safe \<and> conditionScore item = Some 40 \<longrightarrow>
         item \<in> set (highDangerItems inventory))
   \<and> (\<forall>item \<in> set inventory.
         status item = Recalled \<and> conditionScore item = Some 90 \<longrightarrow>
         item \<in> set (highDangerItems inventory))"
proof -
  have u: "set (highDangerItems inventory) =
     {item \<in> set inventory. status item = Recalled \<or> status item = Warning}
     \<union> {item \<in> set inventory. \<exists>s. conditionScore item = Some s \<and> s < 50}"
    using mem_highDangerItems by blast
  have f: "highDangerItems inventory =
       filter (\<lambda>item. status item \<in> {Recalled, Warning}
                      \<or> (\<exists>s. conditionScore item = Some s \<and> s < 50)) inventory"
    by (rule highDangerItems_filter)
  have a: "\<forall>item \<in> set inventory.
         status item = Safe \<and> conditionScore item = Some 40 \<longrightarrow>
         item \<in> set (highDangerItems inventory)"
    by (simp add: mem_highDangerItems)
  have b: "\<forall>item \<in> set inventory.
         status item = Recalled \<and> conditionScore item = Some 90 \<longrightarrow>
         item \<in> set (highDangerItems inventory)"
    by (simp add: mem_highDangerItems)
  show ?thesis by (intro conjI u f a b)
qed

theorem highDangerItems_union_witness:
  "gear1\<lparr>status := Safe, conditionScore := Some 40\<rparr>
     \<in> set (highDangerItems [gear1\<lparr>status := Safe, conditionScore := Some 40\<rparr>,
                               gear2\<lparr>status := Recalled, conditionScore := Some 90\<rparr>, gear2])
   \<and> gear2\<lparr>status := Recalled, conditionScore := Some 90\<rparr>
     \<in> set (highDangerItems [gear1\<lparr>status := Safe, conditionScore := Some 40\<rparr>,
                               gear2\<lparr>status := Recalled, conditionScore := Some 90\<rparr>, gear2])"
proof -
  let ?a = "gear1\<lparr>status := Safe, conditionScore := Some 40\<rparr>"
  let ?b = "gear2\<lparr>status := Recalled, conditionScore := Some 90\<rparr>"
  note u = highDangerItems_union [of "[?a, ?b, gear2]"]
  from u have safe40: "\<forall>item \<in> set [?a, ?b, gear2].
         status item = Safe \<and> conditionScore item = Some 40 \<longrightarrow>
         item \<in> set (highDangerItems [?a, ?b, gear2])"
    by (elim conjE)
  from u have recalled90: "\<forall>item \<in> set [?a, ?b, gear2].
         status item = Recalled \<and> conditionScore item = Some 90 \<longrightarrow>
         item \<in> set (highDangerItems [?a, ?b, gear2])"
    by (elim conjE)
  have a: "?a \<in> set [?a, ?b, gear2]" "status ?a = Safe" "conditionScore ?a = Some 40"
    by simp_all
  have b: "?b \<in> set [?a, ?b, gear2]" "status ?b = Recalled" "conditionScore ?b = Some 90"
    by simp_all
  from safe40 a have "?a \<in> set (highDangerItems [?a, ?b, gear2])" by blast
  moreover from recalled90 b have "?b \<in> set (highDangerItems [?a, ?b, gear2])" by blast
  ultimately show ?thesis by blast
qed

text \<open>
  C6, as stated. An entry whose expiry year is the number 0 has a defined
  expiry year that is at most the current year, so the stated test selects it;
  \<^verbatim>\<open>item.expiryYear && ...\<close> is falsy for 0 and the view leaves it out.
\<close>

theorem reminders_year_zero_counterexample:
  "reminder_spec 2026 (gear1\<lparr>expiryYear := Some 0\<rparr>)
   \<and> gear1\<lparr>expiryYear := Some 0\<rparr> \<in> set [gear1\<lparr>expiryYear := Some 0\<rparr>]
   \<and> gear1\<lparr>expiryYear := Some 0\<rparr> \<notin> set (reminders 2026 [gear1\<lparr>expiryYear := Some 0\<rparr>])"
  by (simp add: reminder_spec_def reminders_def isExpired_def needsInspection_def
        gear1_def)

text \<open>
  C6, amended. The reminders view holds exactly the entries of the store
  whose expiry year is defined, not 0 and at most the current year, or whose
  condition score is defined and below 60; for an entry whose expiry year is not
  0 that is the stated test. A score of exactly 60 does not qualify by the score,
  and the threshold differs from the 50 of the high-danger view: a safe entry
  with a score from 50 to 59 is a reminder and is not high danger.
\<close>

theorem reminders_membership:
  "(item \<in> set (reminders currentYear inventory) \<longleftrightarrow>
      item \<in> set inventory
      \<and> ((\<exists>y. expiryYear item = Some y \<and> y \<noteq> 0 \<and> y \<le> currentYear)
         \<or> (\<exists>s. conditionScore item = Some s \<and> s < 60)))
   \<and> reminders currentYear inventory =
       filter (\<lambda>item. (\<exists>y. expiryYear item = Some y \<and> y \<noteq> 0 \<and> y \<le> currentYear)
                      \<or> (\<exists>s. conditionScore item = Some s \<and> s < 60)) inventory
   \<and> (expiryYear item \<noteq> Some 0 \<longrightarrow>
        (item \<in> set (reminders currentYear inventory) \<longleftrightarrow>
           item \<in> set inventory \<and> reminder_spec currentYear item))
   \<and> (conditionScore item = Some 60 \<and> \<not> isExpired currentYear item \<longrightarrow>
        item \<notin> set (reminders currentYear inventory))
   \<and> (item \<in> set inventory \<and> status item = Safe \<and> conditionScore item = Some s
        \<and> 50 \<le> s \<and> s < 60 \<longrightarrow>
        item \<in> set (reminders currentYear inventory)
        \<and> item \<notin> set (highDangerItems inventory))"
proof -
  have a: "item \<in> set (reminders currentYear inventory) \<longleftrightarrow>
      item \<in> set inventory
      \<and> ((\<exists>y. expiryYear item = Some y \<and> y \<noteq> 0 \<and> y \<le> currentYear)
         \<or> (\<exists>s. conditionScore item = Some s \<and> s < 60))"
    by (rule mem_reminders)
  have b: "expiryYear item \<noteq> Some 0 \<longrightarrow>
        (item \<in> set (reminders currentYear inventory) \<longleftrightarrow>
           item \<in> set inventory \<and> reminder_spec currentYear item)"
    by (auto simp: mem_reminders reminder_spec_def split: option.splits)
  have c: "conditionScore item = Some 60 \<and> \<not> isExpired currentYear item \<longrightarrow>
        item \<notin> set (reminders currentYear inventory)"
    by (simp add: reminders_def needsInspection_def)
  have d: "item \<in> set inventory \<and> status item = Safe \<and> conditionScore item = Some s
        \<and> 50 \<le> s \<and> s < 60 \<longrightarrow>
        item \<in> set (reminders currentYear inventory)
        \<and> item \<notin> set (highDangerItems inventory)"
    by (simp add: mem_reminders mem_highDangerItems)
  note f = reminders_filter [of currentYear inventory]
  show ?thesis by (intro conjI a f b c d)
qed

theorem reminders_membership_witness:
  "gear1\<lparr>conditionScore := Some 60\<rparr>
      \<notin> set (reminders 2026 [gear1\<lparr>conditionScore := Some 60\<rparr>])
   \<and> gear1\<lparr>status := Safe, conditionScore := Some 55\<rparr>
      \<in> set (reminders 2026 [gear1\<lparr>status := Safe, conditionScore := Some 55\<rparr>])
   \<and> gear1\<lparr>status := Safe, conditionScore := Some 55\<rparr>
      \<notin> set (highDangerItems [gear1\<lparr>status := Safe, conditionScore := Some 55\<rparr>])
   \<and> gear1\<lparr>expiryYear := Some 2026\<rparr>
      \<in> set (reminders 2026 [gear1\<lparr>expiryYear := Some 2026\<rparr>])"
proof -
  have e: "conditionScore (gear1\<lparr>conditionScore := Some 60\<rparr>) = Some 60
      \<and> \<not> isExpired 2026 (gear1\<lparr>conditionScore := Some 60\<rparr>)"
    by (simp add: isExpired_def gear1_def)
  from reminders_membership
      [of "gear1\<lparr>conditionScore := Some 60\<rparr>" 2026 "[gear1\<lparr>conditionScore := Some 60\<rparr>]"]
  have "conditionScore (gear1\<lparr>conditionScore := Some 60\<rparr>) = Some 60
      \<and> \<not> isExpired 2026 (gear1\<lparr>conditionScore := Some 60\<rparr>) \<longrightarrow>
      gear1\<lparr>conditionScore := Some 60\<rparr>
        \<notin> set (reminders 2026 [gear1\<lparr>conditionScore := Some 60\<rparr>])"
    by blast
  with e have a: "gear1\<lparr>conditionScore := Some 60\<rparr>
      \<notin> set (reminders 2026 [gear1\<lparr>conditionScore := Some 60\<rparr>])"
    by blast
  have b: "gear1\<lparr>status := Safe, conditionScore := Some 55\<rparr>
      \<in> set (reminders 2026 [gear1\<lparr>status := Safe, conditionScore := Some 55\<rparr>])
   \<and> gear1\<lparr>status := Safe, conditionScore := Some 55\<rparr>
      \<notin> set (highDangerItems [gear1\<lparr>status := Safe, conditionScore := Some 55\<rparr>])"
    using reminders_membership
      [of "gear1\<lparr>status := Safe, conditionScore := Some 55\<rparr>" 2026
          "[gear1\<lparr>status := Safe, conditionScore := Some 55\<rparr>]" 55]
    by simp
  have r: "expiryYear (gear1\<lparr>expiryYear := Some 2026\<rparr>) \<noteq> Some 0
      \<and> reminder_spec 2026 (gear1\<lparr>expiryYear := Some 2026\<rparr>)"
    by (simp add: reminder_spec_def)
  from reminders_membership
      [of "gear1\<lparr>expiryYear := Some 2026\<rparr>" 2026 "[gear1\<lparr>expiryYear := Some 2026\<rparr>]"]
  have "expiryYear (gear1\<lparr>expiryYear := Some 2026\<rparr>) \<noteq> Some 0 \<longrightarrow>
      (gear1\<lparr>expiryYear := Some 2026\<rparr>
         \<in> set (reminders 2026 [gear1\<lparr>expiryYear := Some 2026\<rparr>])
       \<longleftrightarrow> gear1\<lparr>expiryYear := Some 2026\<rparr> \<in> set [gear1\<lparr>expiryYear := Some 2026\<rparr>]
          \<and> reminder_spec 2026 (gear1\<lparr>expiryYear := Some 2026\<rparr>))"
    by blast
  with r have c: "gear1\<lparr>expiryYear := Some 2026\<rparr>
      \<in> set (reminders 2026 [gear1\<lparr>expiryYear := Some 2026\<rparr>])"
    by simp
  from a b c show ?thesis by blast
qed

section \<open>Enrichment orchestration: theorems\<close>

lemma promise_all3_Inr [simp]:
  "promise_all3 (Inr a) (Inr b) (Inr c) = Inr (a, b, c)"
  by (simp add: promise_all3_def)

lemma promise_all3_rejects:
  "isl p \<or> isl q \<or> isl r \<Longrightarrow> \<exists>e. promise_all3 p q r = Inl e"
  by (auto simp: promise_all3_def split: sum.splits)

lemma promise_all3_cases:
  obtains (rejected) e where "promise_all3 p q r = Inl e" "isl p \<or> isl q \<or> isl r"
  | (resolved) a b c where "p = Inr a" "q = Inr b" "r = Inr c"
  by (cases p; cases q; cases r) (auto simp: promise_all3_def)

lemma enrichOne_try_cases:
  obtains (thrown) e where "enrichOne_try item p q r = Inl e"
  | (merged) rr ir cr where "p = Inr rr" "q = Inr ir" "r = Inr (Some cr)"
      "enrichOne_try item p q r = Inr (mergeEnrichment item rr ir cr)"
proof (cases p q r rule: promise_all3_cases)
  case (rejected e)
  then have "enrichOne_try item p q r = Inl e"
    by (simp add: enrichOne_try_def)
  then show ?thesis by (rule thrown)
next
  case (resolved a b c)
  show ?thesis
  proof (cases c)
    case None
    with resolved have "enrichOne_try item p q r = Inl TypeError"
      by (simp add: enrichOne_try_def)
    then show ?thesis by (rule thrown)
  next
    case (Some cr)
    with resolved have "enrichOne_try item p q r = Inr (mergeEnrichment item a b cr)"
      by (simp add: enrichOne_try_def)
    with resolved Some show ?thesis by (intro merged) simp_all
  qed
qed

lemma enrichOne_id [simp]: "item_id (enrichOne item p q r) = item_id item"
  by (cases item p q r rule: enrichOne_try_cases)
     (simp_all add: enrichOne_def mergeEnrichment_def)

lemma enrichWith_id [simp]: "item_id (enrichWith client item) = item_id item"
  by (simp add: enrichWith_def)

lemma find_map_keeping_id:
  "(\<And>x. item_id (f x) = item_id x) \<Longrightarrow>
   find (\<lambda>u. item_id u = k) (map f xs) = map_option f (find (\<lambda>x. item_id x = k) xs)"
  by (induction xs) simp_all

lemma find_filter_distinct:
  "distinct (map item_id xs) \<Longrightarrow> x \<in> set xs \<Longrightarrow>
   find (\<lambda>y. item_id y = item_id x) (filter P xs) = (if P x then Some x else None)"
proof (induction xs)
  case Nil
  then show ?case by simp
next
  case (Cons a xs)
  show ?case
  proof (cases "a = x")
    case True
    from Cons.prems(1) True have "\<forall>y \<in> set xs. item_id y \<noteq> item_id x"
      by (simp add: image_iff) metis
    then have "find (\<lambda>y. item_id y = item_id x) (filter P xs) = None"
      by (simp add: find_None_iff)
    with True show ?thesis by simp
  next
    case False
    with Cons.prems have "x \<in> set xs" "item_id a \<noteq> item_id x" "distinct (map item_id xs)"
      by auto
    with Cons.IH show ?thesis by simp
  qed
qed

lemma mergeUpdated_entry:
  assumes "distinct (map item_id inventory)" "item \<in> set inventory"
  shows "(case find (\<lambda>u. item_id u = item_id item)
                 (map (enrichWith client) (selectUnknown inventory)) of
            Some updated \<Rightarrow> updated | None \<Rightarrow> item)
         = (if status item = Unknown then enrichWith client item else item)"
  using assms
  by (simp add: find_map_keeping_id selectUnknown_def find_filter_distinct)

lemma handleGlobalCheck_distinct:
  assumes "distinct (map item_id inventory)"
  shows "handleGlobalCheck client inventory inventory =
           map (\<lambda>item. if status item = Unknown then enrichWith client item else item) inventory"
  unfolding handleGlobalCheck_def mergeUpdated_def
  using mergeUpdated_entry [OF assms] by (intro map_cong) simp_all

lemma handleGlobalCheck_other_ids:
  assumes "i < length prev"
    and "\<forall>u \<in> set (selectUnknown inventory). item_id u \<noteq> item_id (prev ! i)"
  shows "handleGlobalCheck client inventory prev ! i = prev ! i"
proof -
  have "find (\<lambda>x. item_id x = item_id (prev ! i)) (selectUnknown inventory) = None"
    using assms(2) by (simp add: find_None_iff)
  then have "find (\<lambda>u. item_id u = item_id (prev ! i))
          (map (enrichWith client) (selectUnknown inventory)) = None"
    by (simp add: find_map_keeping_id)
  with assms(1) show ?thesis
    by (simp add: handleGlobalCheck_def mergeUpdated_def)
qed

lemma offline_results:
  "recallCheck offlineClient item = Inr (recallFallback ''2026-01-01T00:00:00.000Z'')"
  "inspectionCheck offlineClient item = Inr (inspectionFallback 2026)"
  "conditionCheck offlineClient item = Inr (Some conditionFallback)"
  by (simp_all add: offlineClient_def checkGearSafety_def checkGearSafety_try_def
        getInspectionDetails_def getInspectionDetails_try_def
        analyzeGearCondition_def analyzeGearCondition_try_def)

lemma enrichWith_offline:
  "enrichWith offlineClient item =
     mergeEnrichment item (recallFallback ''2026-01-01T00:00:00.000Z'')
       (inspectionFallback 2026) conditionFallback"
  by (simp add: enrichWith_def enrichOne_def enrichOne_try_def offline_results)

lemma mergeEnrichment_fields:
  "item_id (mergeEnrichment item rr ir cr) = item_id item"
  "name (mergeEnrichment item rr ir cr) = name item"
  "brand (mergeEnrichment item rr ir cr) = brand item"
  "model (mergeEnrichment item rr ir cr) = model item"
  "category (mergeEnrichment item rr ir cr) = category item"
  "purchaseDate (mergeEnrichment item rr ir cr) = purchaseDate item"
  "region (mergeEnrichment item rr ir cr) = region item"
  "notes (mergeEnrichment item rr ir cr) = notes item"
  "serialNumber (mergeEnrichment item rr ir cr) = serialNumber item"
  "inLoadout (mergeEnrichment item rr ir cr) = inLoadout item"
  "status (mergeEnrichment item rr ir cr) = RecallResult.status rr"
  "recallInfo (mergeEnrichment item rr ir cr) = Some rr"
  "expiryYear (mergeEnrichment item rr ir cr) = Some (InspectionDetails.expiryYear ir)"
  "inspectionTasks (mergeEnrichment item rr ir cr) = Some (InspectionDetails.inspectionTasks ir)"
  "conditionScore (mergeEnrichment item rr ir cr) = score cr"
  "conditionLabel (mergeEnrichment item rr ir cr) = label cr"
  "inspectionDue (mergeEnrichment item rr ir cr) = Some True"
  "weakPoints (mergeEnrichment item rr ir cr) = Some (InspectionDetails.weakPoints ir)"
  "knownWeakPoints (mergeEnrichment item rr ir cr) = knownWeakPoints item"
  by (simp_all add: mergeEnrichment_def)

lemma enrichOne_null_returns_item:
  "enrichOne_try item (Inr rr) (Inr ir) (Inr None) = Inl TypeError"
  "enrichOne item p q (Inr None) = item"
  "handleCheckSafety inventory item p q (Inr None) = inventory"
  by (cases p; cases q;
      simp add: enrichOne_def handleCheckSafety_def enrichOne_try_def promise_all3_def)+

text \<open>
  C1. When one of the three calls is rejected, \<open>enrichOne\<close> returns the item
  it was given, equal in every field, so an unknown status stays unknown; and the
  card's handler leaves the store as it is.
\<close>

theorem enrichOne_failure_returns_item:
  "isl p \<or> isl q \<or> isl r \<Longrightarrow>
   enrichOne item p q r = item
   \<and> (status item = Unknown \<longrightarrow> status (enrichOne item p q r) = Unknown)
   \<and> handleCheckSafety inventory item p q r = inventory"
proof -
  assume "isl p \<or> isl q \<or> isl r"
  then obtain e where "promise_all3 p q r = Inl e"
    using promise_all3_rejects by blast
  then have "enrichOne_try item p q r = Inl e"
    by (simp add: enrichOne_try_def)
  then show ?thesis
    by (simp add: enrichOne_def handleCheckSafety_def)
qed

theorem enrichOne_failure_returns_item_witness:
  "enrichOne gear1 (Inr (recallFallback ''t'')) (Inl NetworkError) (Inr (Some conditionFallback)) = gear1
   \<and> status (enrichOne gear1 (Inr (recallFallback ''t'')) (Inl NetworkError) (Inr (Some conditionFallback))) = Unknown
   \<and> handleCheckSafety [gear1] gear1 (Inr (recallFallback ''t'')) (Inl NetworkError) (Inr (Some conditionFallback)) = [gear1]"
  using enrichOne_failure_returns_item
    [of "Inr (recallFallback ''t'')" "Inl NetworkError" "Inr (Some conditionFallback)" gear1 "[gear1]"]
  by (simp add: gear1_def)

text \<open>
  C2, on the code. When the three calls succeed the merged object keeps the
  identity and descriptive fields and carries the eight properties of the object
  literal (\<open>mergeEnrichment_fields\<close>). The weak points go to the property
  \<^verbatim>\<open>weakPoints\<close>; the declared field \<open>knownWeakPoints\<close>, the one the card shows
  and the quick verdict reads, keeps its old value. For the first seed item and
  an inspection result with one weak point it is still undefined afterwards.
\<close>

theorem enrichOne_knownWeakPoints_not_set:
  "knownWeakPoints
     (enrichOne gear1 (Inr (recallFallback ''2026-01-01T00:00:00.000Z''))
        (Inr (inspectionFallback 2026)) (Inr (Some conditionFallback))) = None
   \<and> weakPoints
     (enrichOne gear1 (Inr (recallFallback ''2026-01-01T00:00:00.000Z''))
        (Inr (inspectionFallback 2026)) (Inr (Some conditionFallback)))
     = Some [''Check general condition'']
   \<and> InspectionDetails.weakPoints (inspectionFallback 2026) = [''Check general condition'']"
  by (simp add: enrichOne_def enrichOne_try_def mergeEnrichment_def gear1_def
        inspectionFallback_def)

text \<open>
  C3, as stated. In a store where a safe entry has the id of an unknown
  entry, the bulk merge replaces the safe entry too: results are matched back by
  id, and the first enriched item with that id is taken.
\<close>

theorem handleGlobalCheck_shared_id_counterexample:
  "status ([gear1, gear2\<lparr>item_id := ''1'', status := Safe\<rparr>] ! 1) = Safe
   \<and> handleGlobalCheck offlineClient
         [gear1, gear2\<lparr>item_id := ''1'', status := Safe\<rparr>]
         [gear1, gear2\<lparr>item_id := ''1'', status := Safe\<rparr>] ! 1
       \<noteq> [gear1, gear2\<lparr>item_id := ''1'', status := Safe\<rparr>] ! 1
   \<and> handleGlobalCheck offlineClient
         [gear1, gear2\<lparr>item_id := ''1'', status := Safe\<rparr>]
         [gear1, gear2\<lparr>item_id := ''1'', status := Safe\<rparr>] ! 1
       = enrichWith offlineClient gear1"
proof -
  have g1: "status gear1 = Unknown" "item_id gear1 = ''1''"
    by (simp_all add: gear1_def)
  have r: "handleGlobalCheck offlineClient
         [gear1, gear2\<lparr>item_id := ''1'', status := Safe\<rparr>]
         [gear1, gear2\<lparr>item_id := ''1'', status := Safe\<rparr>]
       = [enrichWith offlineClient gear1, enrichWith offlineClient gear1]"
    by (simp add: handleGlobalCheck_def mergeUpdated_def selectUnknown_def g1)
  have n: "name (enrichWith offlineClient gear1) \<noteq> name (gear2\<lparr>item_id := ''1'', status := Safe\<rparr>)"
    by (simp add: enrichWith_offline mergeEnrichment_def gear1_def gear2_def)
  then have "enrichWith offlineClient gear1 \<noteq> gear2\<lparr>item_id := ''1'', status := Safe\<rparr>"
    by metis
  with r show ?thesis by simp
qed

text \<open>
  C3, amended. For every store whose ids are pairwise distinct (and with no
  other update between the start of the check and the merge), the entries
  selected for enrichment are exactly those with status unknown, the merged store
  has the same length, every entry whose status was not unknown is at its
  position unchanged, and an entry that differs had status unknown.
\<close>

theorem handleGlobalCheck_frame:
  assumes "distinct (map item_id inventory)"
  shows "set (selectUnknown inventory) = {item \<in> set inventory. status item = Unknown}
   \<and> length (handleGlobalCheck client inventory inventory) = length inventory
   \<and> (\<forall>i < length inventory.
         status (inventory ! i) \<noteq> Unknown \<longrightarrow>
         handleGlobalCheck client inventory inventory ! i = inventory ! i)
   \<and> (\<forall>i < length inventory.
         handleGlobalCheck client inventory inventory ! i \<noteq> inventory ! i \<longrightarrow>
         status (inventory ! i) = Unknown)
   \<and> (\<forall>i < length inventory.
         status (inventory ! i) = Unknown \<longrightarrow>
         handleGlobalCheck client inventory inventory ! i = enrichWith client (inventory ! i))"
proof -
  have sel: "set (selectUnknown inventory) = {item \<in> set inventory. status item = Unknown}"
    by (auto simp: selectUnknown_def)
  have eq: "handleGlobalCheck client inventory inventory =
      map (\<lambda>item. if status item = Unknown then enrichWith client item else item) inventory"
    using assms by (rule handleGlobalCheck_distinct)
  have len: "length (handleGlobalCheck client inventory inventory) = length inventory"
    by (simp add: eq)
  have keep: "\<forall>i < length inventory.
         status (inventory ! i) \<noteq> Unknown \<longrightarrow>
         handleGlobalCheck client inventory inventory ! i = inventory ! i"
    by (simp add: eq)
  have enriched: "\<forall>i < length inventory.
         status (inventory ! i) = Unknown \<longrightarrow>
         handleGlobalCheck client inventory inventory ! i = enrichWith client (inventory ! i)"
    by (simp add: eq)
  from keep have diff: "\<forall>i < length inventory.
         handleGlobalCheck client inventory inventory ! i \<noteq> inventory ! i \<longrightarrow>
         status (inventory ! i) = Unknown"
    by blast
  show ?thesis by (intro conjI sel len keep diff enriched)
qed

theorem handleGlobalCheck_frame_witness:
  "handleGlobalCheck offlineClient [gear1, gear2\<lparr>status := Safe\<rparr>]
       [gear1, gear2\<lparr>status := Safe\<rparr>] ! 1 = gear2\<lparr>status := Safe\<rparr>
   \<and> handleGlobalCheck offlineClient [gear1, gear2\<lparr>status := Safe\<rparr>]
       [gear1, gear2\<lparr>status := Safe\<rparr>] ! 0 = enrichWith offlineClient gear1
   \<and> set (selectUnknown [gear1, gear2\<lparr>status := Safe\<rparr>]) = {gear1}"
proof -
  let ?inv = "[gear1, gear2\<lparr>status := Safe\<rparr>]"
  have d: "distinct (map item_id ?inv)"
    by (simp add: gear1_gear2_ids)
  have s0: "status (?inv ! 0) = Unknown" by (simp add: gear1_def)
  have s1: "status (?inv ! 1) \<noteq> Unknown" by simp
  note fr = handleGlobalCheck_frame [OF d, of offlineClient]
  from fr have sel: "set (selectUnknown ?inv) = {item \<in> set ?inv. status item = Unknown}"
    by (rule conjunct1)
  from fr have keep: "\<forall>i < length ?inv. status (?inv ! i) \<noteq> Unknown \<longrightarrow>
      handleGlobalCheck offlineClient ?inv ?inv ! i = ?inv ! i"
    by (elim conjE)
  from fr have enr: "\<forall>i < length ?inv. status (?inv ! i) = Unknown \<longrightarrow>
      handleGlobalCheck offlineClient ?inv ?inv ! i = enrichWith offlineClient (?inv ! i)"
    by (elim conjE)
  have l0: "0 < length ?inv" and l1: "1 < length ?inv" by simp_all
  from keep l1 s1 have a: "handleGlobalCheck offlineClient ?inv ?inv ! 1 = ?inv ! 1"
    by blast
  from enr l0 s0 have b: "handleGlobalCheck offlineClient ?inv ?inv ! 0
      = enrichWith offlineClient (?inv ! 0)"
    by blast
  have c: "{item \<in> set ?inv. status item = Unknown} = {gear1}"
    using s0 by auto
  from a b sel c show ?thesis by simp
qed

section \<open>Enrichment client: theorems\<close>










text \<open>
  C7, as stated. The string the quick verdict falls back to is not the quoted
  one: the code returns \<open>''Could not assess. Please inspect manually.''\<close>.
\<close>

theorem quickVerdict_fallback_counterexample:
  "assessImmediateSafety (Inl NetworkError) gear1 defaultTripContext
     = Inr ''Could not assess. Please inspect manually.''
   \<and> assessImmediateSafety (Inl NetworkError) gear1 defaultTripContext
     \<noteq> Inr ''could not assess, inspect manually''"
  by (simp add: assessImmediateSafety_def assessImmediateSafety_try_def)

text \<open>
  C7, amended. \<open>assessImmediateSafety\<close> always resolves, and when the external
  call is rejected (or anything else in its \<^verbatim>\<open>try\<close> block throws) it resolves with
  the fixed string \<open>''Could not assess. Please inspect manually.''\<close>.
  \<open>analyzeTripLoadout\<close> always resolves, and on failure with the fixed analysis
  whose weakest-category and red-flag lists are empty and whose only suggestion
  is the generic one.
\<close>

theorem verdict_and_loadout_fallbacks:
  "(\<exists>v. assessImmediateSafety response item context = Inr v)
   \<and> (assessImmediateSafety_try response item context = Inl e \<longrightarrow>
        assessImmediateSafety response item context
          = Inr ''Could not assess. Please inspect manually.'')
   \<and> assessImmediateSafety (Inl e) item context
        = Inr ''Could not assess. Please inspect manually.''
   \<and> (\<exists>a. analyzeTripLoadout parse loadout items context = Inr a)
   \<and> (analyzeTripLoadout_try parse loadout items context = Inl e \<longrightarrow>
        analyzeTripLoadout parse loadout items context = Inr loadoutFallback)
   \<and> analyzeTripLoadout parse (Inl e) items context = Inr loadoutFallback
   \<and> weakestCategories loadoutFallback = []
   \<and> redFlagItems loadoutFallback = []
   \<and> suggestions loadoutFallback = [''Check all gear manually before departure.'']"
proof -
  have a: "\<exists>v. assessImmediateSafety response item context = Inr v"
    by (simp add: assessImmediateSafety_def split: sum.splits)
  have b: "assessImmediateSafety_try response item context = Inl e \<longrightarrow>
        assessImmediateSafety response item context
          = Inr ''Could not assess. Please inspect manually.''"
    by (simp add: assessImmediateSafety_def)
  have c: "assessImmediateSafety (Inl e) item context
        = Inr ''Could not assess. Please inspect manually.''"
    by (simp add: assessImmediateSafety_def assessImmediateSafety_try_def)
  have d: "\<exists>a. analyzeTripLoadout parse loadout items context = Inr a"
    by (simp add: analyzeTripLoadout_def split: sum.splits)
  have f: "analyzeTripLoadout_try parse loadout items context = Inl e \<longrightarrow>
        analyzeTripLoadout parse loadout items context = Inr loadoutFallback"
    by (simp add: analyzeTripLoadout_def)
  have g: "analyzeTripLoadout parse (Inl e) items context = Inr loadoutFallback"
    by (simp add: analyzeTripLoadout_def analyzeTripLoadout_try_def)
  have h: "weakestCategories loadoutFallback = []
   \<and> redFlagItems loadoutFallback = []
   \<and> suggestions loadoutFallback = [''Check all gear manually before departure.'']"
    by (simp add: loadoutFallback_def)
  from a b c d f g h show ?thesis by blast
qed

theorem verdict_and_loadout_fallbacks_witness:
  "assessImmediateSafety (Inr \<lparr>text = None, groundingChunks = None\<rparr>) gear1 defaultTripContext
     = Inr ''Could not assess. Please inspect manually.''
   \<and> analyzeTripLoadout (\<lambda>s. Inl SyntaxError)
       (Inr \<lparr>text = Some ''not json'', groundingChunks = None\<rparr>) [gear1] defaultTripContext
     = Inr loadoutFallback"
proof -
  have t1: "assessImmediateSafety_try (Inr \<lparr>text = None, groundingChunks = None\<rparr>) gear1
      defaultTripContext = Inl TypeError"
    by (simp add: assessImmediateSafety_try_def)
  have a: "assessImmediateSafety (Inr \<lparr>text = None, groundingChunks = None\<rparr>) gear1 defaultTripContext
     = Inr ''Could not assess. Please inspect manually.''"
    using verdict_and_loadout_fallbacks
      [of "Inr \<lparr>text = None, groundingChunks = None\<rparr>" gear1 defaultTripContext TypeError] t1
    by blast
  have t2: "analyzeTripLoadout_try (\<lambda>s. Inl SyntaxError)
       (Inr \<lparr>text = Some ''not json'', groundingChunks = None\<rparr>) [gear1] defaultTripContext
      = Inl SyntaxError"
    by (simp add: analyzeTripLoadout_try_def)
  have b: "analyzeTripLoadout (\<lambda>s. Inl SyntaxError)
       (Inr \<lparr>text = Some ''not json'', groundingChunks = None\<rparr>) [gear1] defaultTripContext
     = Inr loadoutFallback"
    using verdict_and_loadout_fallbacks
      [of _ _ defaultTripContext SyntaxError "\<lambda>s. Inl SyntaxError"
          "Inr \<lparr>text = Some ''not json'', groundingChunks = None\<rparr>" "[gear1]"] t2
    by blast
  from a b show ?thesis by blast
qed

end
